theory Spec2Isabelle
  imports Main "HOL-Library.Code_Target_Numeral"
begin

section \<open>Errors and JavaScript helpers\<close>

text \<open>
  A thrown JavaScript exception is a value: \<open>Error msg\<close> stands for \<^verbatim>\<open>new Error(msg)\<close>
  and \<open>TypeError msg\<close> for \<^verbatim>\<open>new TypeError(msg)\<close>. A function that may throw returns
  \<open>error + 'a\<close>, with \<open>Inl\<close> the exception. Strings are lists of code units below 256.
\<close>

datatype error = Error string | TypeError string

text \<open>\<^verbatim>\<open>s.split(c)\<close> for a one-character separator: there is always at least one part.\<close>

fun split_on :: "char \<Rightarrow> string \<Rightarrow> string list" where
  "split_on c [] = [[]]"
| "split_on c (x # xs) =
     (if x = c then [] # split_on c xs
      else (case split_on c xs of [] \<Rightarrow> [[x]] | p # ps \<Rightarrow> (x # p) # ps))"

text \<open>
  \<^verbatim>\<open>xs.some(f)\<close> where the callback may throw: the elements are visited in order, the first
  \<open>true\<close> ends the loop, and an exception of the callback leaves it.
\<close>

fun some_e :: "('a \<Rightarrow> error + bool) \<Rightarrow> 'a list \<Rightarrow> error + bool" where
  "some_e f [] = Inr False"
| "some_e f (x # xs) =
     (case f x of Inl e \<Rightarrow> Inl e
      | Inr b \<Rightarrow> if b then Inr True else some_e f xs)"

text \<open>Truthiness of an optional string: \<open>undefined\<close> and the empty string are falsy.\<close>

definition truthy :: "string option \<Rightarrow> bool" where
  "truthy s = (case s of None \<Rightarrow> False | Some x \<Rightarrow> x \<noteq> [])"

section \<open>The semver package (external library), strict mode\<close>

text \<open>
  \<open>rules.ts\<close> calls \<^verbatim>\<open>semver.gte\<close>, \<^verbatim>\<open>semver.lt\<close> and \<^verbatim>\<open>semver.eq\<close> of the npm package
  semver (7.x) without options. The definitions of this section follow that package:
  \<^verbatim>\<open>classes/semver.js\<close>, \<^verbatim>\<open>internal/re.js\<close> (the regular expression FULL),
  \<^verbatim>\<open>internal/identifiers.js\<close> and \<^verbatim>\<open>functions/compare.js\<close>.
\<close>

definition MAX_LENGTH :: nat where
  "MAX_LENGTH = 256"

definition MAX_SAFE_INTEGER :: nat where
  "MAX_SAFE_INTEGER = 9007199254740991"

definition is_digit :: "char \<Rightarrow> bool" where
  "is_digit c = (c \<in> set ''0123456789'')"

definition is_letterdashnumber :: "char \<Rightarrow> bool" where
  "is_letterdashnumber c =
     (c \<in> set ''abcdefghijklmnopqrstuvwxyzABCDEFGHIJKLMNOPQRSTUVWXYZ0123456789-'')"

text \<open>The characters \<^verbatim>\<open>String.prototype.trim\<close> removes, among the code units below 256.\<close>

definition is_whitespace :: "char \<Rightarrow> bool" where
  "is_whitespace c = ((of_char c :: nat) \<in> set [9, 10, 11, 12, 13, 32, 160])"

definition trim :: "string \<Rightarrow> string" where
  "trim s = rev (dropWhile is_whitespace (rev (dropWhile is_whitespace s)))"

text \<open>NUMERICIDENTIFIER is \<^verbatim>\<open>0|[1-9]\d*\<close>.\<close>

definition numeric_identifier :: "string \<Rightarrow> bool" where
  "numeric_identifier s =
     (case s of [] \<Rightarrow> False
      | c # cs \<Rightarrow> list_all is_digit s \<and> (c = CHR ''0'' \<longrightarrow> cs = []))"

text \<open>NONNUMERICIDENTIFIER is \<^verbatim>\<open>\d*[a-zA-Z-][a-zA-Z0-9-]*\<close>.\<close>

definition nonnumeric_identifier :: "string \<Rightarrow> bool" where
  "nonnumeric_identifier s =
     (list_all is_letterdashnumber s \<and> list_ex (\<lambda>c. \<not> is_digit c) s)"

definition prerelease_identifier :: "string \<Rightarrow> bool" where
  "prerelease_identifier s = (nonnumeric_identifier s \<or> numeric_identifier s)"

text \<open>BUILDIDENTIFIER is \<^verbatim>\<open>[a-zA-Z0-9-]+\<close>.\<close>

definition build_identifier :: "string \<Rightarrow> bool" where
  "build_identifier s = (s \<noteq> [] \<and> list_all is_letterdashnumber s)"

text \<open>
  The groups of a match of FULL, \<^verbatim>\<open>^v?MAIN(?:-(PRE))?(?:\+(BUILD))?$\<close>: major, minor,
  patch, and the optional prerelease and build texts. \<open>None\<close> is no match.
\<close>

definition match_tail :: "string \<Rightarrow> (string option \<times> string option) option" where
  "match_tail r =
     (let pb = (case r of
                  [] \<Rightarrow> (None, [])
                | c # cs \<Rightarrow>
                    if c = CHR ''-''
                    then (Some (takeWhile (\<lambda>x. x \<noteq> CHR ''+'') cs),
                          dropWhile (\<lambda>x. x \<noteq> CHR ''+'') cs)
                    else (None, r));
          pre = fst pb;
          r' = snd pb;
          pre_ok = (case pre of None \<Rightarrow> True
                    | Some p \<Rightarrow> list_all prerelease_identifier (split_on (CHR ''.'') p))
      in case r' of
           [] \<Rightarrow> if pre_ok then Some (pre, None) else None
         | c # b \<Rightarrow>
             if c = CHR ''+'' \<and> pre_ok \<and> list_all build_identifier (split_on (CHR ''.'') b)
             then Some (pre, Some b) else None)"

definition match_FULL ::
  "string \<Rightarrow> (string \<times> string \<times> string \<times> string option \<times> string option) option" where
  "match_FULL s =
     (let s1 = (case s of [] \<Rightarrow> [] | c # cs \<Rightarrow> if c = CHR ''v'' then cs else s);
          ma = takeWhile is_digit s1
      in case dropWhile is_digit s1 of
           [] \<Rightarrow> None
         | d1 # r1 \<Rightarrow>
             let mi = takeWhile is_digit r1
             in (case dropWhile is_digit r1 of
                   [] \<Rightarrow> None
                 | d2 # r2 \<Rightarrow>
                     let pa = takeWhile is_digit r2
                     in if d1 = CHR ''.'' \<and> d2 = CHR ''.'' \<and> numeric_identifier ma
                           \<and> numeric_identifier mi \<and> numeric_identifier pa
                        then (case match_tail (dropWhile is_digit r2) of
                                None \<Rightarrow> None
                              | Some (pre, build) \<Rightarrow> Some (ma, mi, pa, pre, build))
                        else None))"

text \<open>The value of a string of decimal digits.\<close>

definition decimal :: "string \<Rightarrow> nat" where
  "decimal s = foldl (\<lambda>n c. 10 * n + ((of_char c :: nat) - 48)) 0 s"

fun bit_length :: "nat \<Rightarrow> nat" where
  "bit_length n = (if n = 0 then 0 else Suc (bit_length (n div 2)))"

text \<open>
  The unary plus of JavaScript on a natural number: the nearest double, ties to even.
  Numbers below \<open>2 ^ 53\<close> are exact.
\<close>

definition js_number :: "nat \<Rightarrow> nat" where
  "js_number n =
     (if n < 2 ^ 53 then n
      else let k = bit_length n - 53;
               q = n div 2 ^ k;
               r = n mod 2 ^ k;
               half = 2 ^ (k - 1)
           in if half < r \<or> (r = half \<and> odd q) then (q + 1) * 2 ^ k else q * 2 ^ k)"

text \<open>A prerelease identifier is a number or a string, as the constructor leaves it.\<close>

datatype ident = Num nat | Str string

record SemVer =
  major :: nat
  minor :: nat
  patch :: nat
  prerelease :: "ident list"
  build :: "string list"

definition numberify :: "string \<Rightarrow> ident" where
  "numberify i =
     (if i \<noteq> [] \<and> list_all is_digit i \<and> js_number (decimal i) < MAX_SAFE_INTEGER
      then Num (js_number (decimal i)) else Str i)"

text \<open>The constructor \<^verbatim>\<open>new SemVer(version)\<close>.\<close>

definition new_SemVer :: "string \<Rightarrow> error + SemVer" where
  "new_SemVer version =
     (if MAX_LENGTH < length version
      then Inl (TypeError ''version is longer than 256 characters'')
      else case match_FULL (trim version) of
             None \<Rightarrow> Inl (TypeError (''Invalid Version: '' @ version))
           | Some (m1, m2, m3, m4, m5) \<Rightarrow>
               if MAX_SAFE_INTEGER < js_number (decimal m1)
               then Inl (TypeError ''Invalid major version'')
               else if MAX_SAFE_INTEGER < js_number (decimal m2)
               then Inl (TypeError ''Invalid minor version'')
               else if MAX_SAFE_INTEGER < js_number (decimal m3)
               then Inl (TypeError ''Invalid patch version'')
               else Inr \<lparr> major = js_number (decimal m1),
                          minor = js_number (decimal m2),
                          patch = js_number (decimal m3),
                          prerelease = (case m4 of None \<Rightarrow> []
                                        | Some p \<Rightarrow> map numberify (split_on (CHR ''.'') p)),
                          build = (case m5 of None \<Rightarrow> []
                                   | Some b \<Rightarrow> split_on (CHR ''.'') b) \<rparr>)"

text \<open>\<^verbatim>\<open>a < b\<close> on two strings: lexicographic on the code units.\<close>

fun string_less :: "string \<Rightarrow> string \<Rightarrow> bool" where
  "string_less [] [] = False"
| "string_less [] (y # ys) = True"
| "string_less (x # xs) [] = False"
| "string_less (x # xs) (y # ys) =
     (if x = y then string_less xs ys else (of_char x :: nat) < of_char y)"

definition numeric :: "ident \<Rightarrow> bool" where
  "numeric a = (case a of Num n \<Rightarrow> True | Str s \<Rightarrow> s \<noteq> [] \<and> list_all is_digit s)"

definition to_number :: "ident \<Rightarrow> nat" where
  "to_number a = (case a of Num n \<Rightarrow> n | Str s \<Rightarrow> js_number (decimal s))"

definition compareIdentifiers :: "ident \<Rightarrow> ident \<Rightarrow> int" where
  "compareIdentifiers a b =
     (let anum = numeric a; bnum = numeric b
      in if anum \<and> bnum
         then (if to_number a = to_number b then 0
               else if to_number a < to_number b then - 1 else 1)
         else if a = b then 0
         else if anum \<and> \<not> bnum then - 1
         else if bnum \<and> \<not> anum then 1
         else (case (a, b) of
                 (Str x, Str y) \<Rightarrow> if string_less x y then - 1 else 1
               | _ \<Rightarrow> 1))"

definition compareMain :: "SemVer \<Rightarrow> SemVer \<Rightarrow> int" where
  "compareMain this other =
     (let c1 = compareIdentifiers (Num (major this)) (Num (major other));
          c2 = compareIdentifiers (Num (minor this)) (Num (minor other))
      in if c1 \<noteq> 0 then c1
         else if c2 \<noteq> 0 then c2
         else compareIdentifiers (Num (patch this)) (Num (patch other)))"

fun comparePre_loop :: "ident list \<Rightarrow> ident list \<Rightarrow> int" where
  "comparePre_loop [] [] = 0"
| "comparePre_loop (a # as) [] = 1"
| "comparePre_loop [] (b # bs) = - 1"
| "comparePre_loop (a # as) (b # bs) =
     (if a = b then comparePre_loop as bs else compareIdentifiers a b)"

definition comparePre :: "SemVer \<Rightarrow> SemVer \<Rightarrow> int" where
  "comparePre this other =
     (if prerelease this \<noteq> [] \<and> prerelease other = [] then - 1
      else if prerelease this = [] \<and> prerelease other \<noteq> [] then 1
      else if prerelease this = [] \<and> prerelease other = [] then 0
      else comparePre_loop (prerelease this) (prerelease other))"

text \<open>
  \<^verbatim>\<open>this.compare(other)\<close>. The formatted \<^verbatim>\<open>version\<close> strings of the source are equal
  exactly when the four components they are printed from are.
\<close>

definition SemVer_compare :: "SemVer \<Rightarrow> SemVer \<Rightarrow> int" where
  "SemVer_compare this other =
     (if major other = major this \<and> minor other = minor this \<and> patch other = patch this
         \<and> prerelease other = prerelease this
      then 0
      else if compareMain this other \<noteq> 0 then compareMain this other
      else comparePre this other)"

text \<open>\<^verbatim>\<open>compare(a, b)\<close>: \<open>a\<close> is parsed first, then \<open>b\<close>.\<close>

definition compare :: "string \<Rightarrow> string \<Rightarrow> error + int" where
  "compare a b =
     (case new_SemVer a of
        Inl e \<Rightarrow> Inl e
      | Inr x \<Rightarrow> (case new_SemVer b of
                   Inl e \<Rightarrow> Inl e
                 | Inr y \<Rightarrow> Inr (SemVer_compare x y)))"

definition semver_gte :: "string \<Rightarrow> string \<Rightarrow> error + bool" where
  "semver_gte a b = (case compare a b of Inl e \<Rightarrow> Inl e | Inr c \<Rightarrow> Inr (0 \<le> c))"

definition semver_lt :: "string \<Rightarrow> string \<Rightarrow> error + bool" where
  "semver_lt a b = (case compare a b of Inl e \<Rightarrow> Inl e | Inr c \<Rightarrow> Inr (c < 0))"

definition semver_eq :: "string \<Rightarrow> string \<Rightarrow> error + bool" where
  "semver_eq a b = (case compare a b of Inl e \<Rightarrow> Inl e | Inr c \<Rightarrow> Inr (c = 0))"

section \<open>The data model of the rule engine\<close>

text \<open>
  The types of \<^verbatim>\<open>./types\<close>, as \<open>rules.ts\<close> reads them. A condition tree is loaded from
  external JSON, so a node can carry a tag outside the declared ones: \<open>UnknownClause tag\<close>
  is such a node, and the \<open>type\<close> of a criterion is the string it carries.
\<close>

datatype ConditionalClause =
    Range "string option" "string option"
  | ExactMatch "string list"
  | Or "ConditionalClause list"
  | UnknownClause string

record CriteriaCondition =
  type :: string
  "values" :: "string list"

record RuleContext =
  ideVersion :: string
  extensionVersion :: string
  os :: string
  computeEnv :: string
  authTypes :: "string list"
  authRegions :: "string list"
  authStates :: "string list"
  authScopes :: "string list"
  installedExtensions :: "string list"
  activeExtensions :: "string list"

text \<open>
  The fields \<^verbatim>\<open>ideVersion\<close> and \<^verbatim>\<open>extensionVersion\<close> of \<^verbatim>\<open>DisplayIf\<close> carry the suffix
  \<open>_clause\<close> here, the context having fields of the same names.
\<close>

record DisplayIf =
  extensionId :: string
  ideVersion_clause :: "ConditionalClause option"
  extensionVersion_clause :: "ConditionalClause option"
  additionalCriteria :: "CriteriaCondition list option"

record ToolkitNotification =
  displayIf :: DisplayIf

section \<open>The version matcher\<close>

text \<open>
  \<^verbatim>\<open>isValidVersion(version, condition)\<close>. Both constraints of a range are computed before
  they are combined; \<open>isValidVersion_some\<close> is \<^verbatim>\<open>condition.clauses.some(...)\<close>.
\<close>

fun isValidVersion :: "string \<Rightarrow> ConditionalClause \<Rightarrow> error + bool"
  and isValidVersion_some :: "string \<Rightarrow> ConditionalClause list \<Rightarrow> error + bool" where
  "isValidVersion version (Range lowerInclusive upperExclusive) =
     (case (if \<not> truthy lowerInclusive then Inr True
            else semver_gte version (the lowerInclusive)) of
        Inl e \<Rightarrow> Inl e
      | Inr lowerConstraint \<Rightarrow>
          (case (if \<not> truthy upperExclusive then Inr True
                 else semver_lt version (the upperExclusive)) of
             Inl e \<Rightarrow> Inl e
           | Inr upperConstraint \<Rightarrow> Inr (lowerConstraint \<and> upperConstraint)))"
| "isValidVersion version (ExactMatch vs) = some_e (\<lambda>v. semver_eq v version) vs"
| "isValidVersion version (Or clauses) = isValidVersion_some version clauses"
| "isValidVersion version (UnknownClause tag) =
     Inl (Error (''Unknown clause type: '' @ tag))"
| "isValidVersion_some version [] = Inr False"
| "isValidVersion_some version (clause # clauses) =
     (case isValidVersion version clause of
        Inl e \<Rightarrow> Inl e
      | Inr b \<Rightarrow> if b then Inr True else isValidVersion_some version clauses)"

section \<open>The rule engine\<close>

definition isExpected :: "string list \<Rightarrow> string \<Rightarrow> bool" where
  "isExpected expected i = (i \<in> set expected)"

definition hasAnyOfExpected :: "string list \<Rightarrow> string list \<Rightarrow> bool" where
  "hasAnyOfExpected expected i = list_ex (\<lambda>v. v \<in> set expected) i"

definition isSuperSetOfExpected :: "string list \<Rightarrow> string list \<Rightarrow> bool" where
  "isSuperSetOfExpected expected i = list_all (\<lambda>v. v \<in> set i) expected"

definition isEqualSetToExpected :: "string list \<Rightarrow> string list \<Rightarrow> bool" where
  "isEqualSetToExpected expected i =
     (list_all (\<lambda>v. v \<in> set i) expected \<and> list_all (\<lambda>v. v \<in> set expected) i)"

definition evaluateRule :: "RuleContext \<Rightarrow> CriteriaCondition \<Rightarrow> error + bool" where
  "evaluateRule ctx criteria =
     (let expected = values criteria
      in if type criteria = ''OS'' then Inr (isExpected expected (os ctx))
         else if type criteria = ''ComputeEnv''
           then Inr (isExpected expected (computeEnv ctx))
         else if type criteria = ''AuthType''
           then Inr (hasAnyOfExpected expected (authTypes ctx))
         else if type criteria = ''AuthRegion''
           then Inr (hasAnyOfExpected expected (authRegions ctx))
         else if type criteria = ''AuthState''
           then Inr (hasAnyOfExpected expected (authStates ctx))
         else if type criteria = ''AuthScopes''
           then Inr (isEqualSetToExpected expected (authScopes ctx))
         else if type criteria = ''InstalledExtensions''
           then Inr (isSuperSetOfExpected expected (installedExtensions ctx))
         else if type criteria = ''ActiveExtensions''
           then Inr (isSuperSetOfExpected expected (activeExtensions ctx))
         else Inl (Error (''Unknown criteria type: '' @ type criteria)))"

text \<open>The loop of \<^verbatim>\<open>evaluate\<close> over \<^verbatim>\<open>condition.additionalCriteria\<close>.\<close>

fun evaluate_criteria :: "RuleContext \<Rightarrow> CriteriaCondition list \<Rightarrow> error + bool" where
  "evaluate_criteria ctx [] = Inr True"
| "evaluate_criteria ctx (criteria # rest) =
     (case evaluateRule ctx criteria of
        Inl e \<Rightarrow> Inl e
      | Inr b \<Rightarrow> if \<not> b then Inr False else evaluate_criteria ctx rest)"

text \<open>
  \<^verbatim>\<open>RuleEngine.evaluate\<close>; \<open>currentExt\<close> is \<^verbatim>\<open>globals.context.extension.id\<close> and \<open>ctx\<close>
  the context the engine was constructed with.
\<close>

definition evaluate :: "string \<Rightarrow> RuleContext \<Rightarrow> DisplayIf \<Rightarrow> error + bool" where
  "evaluate currentExt ctx condition =
     (if extensionId condition \<noteq> currentExt then Inr False
      else case (case ideVersion_clause condition of
                   None \<Rightarrow> Inr True
                 | Some c \<Rightarrow> isValidVersion (ideVersion ctx) c) of
             Inl e \<Rightarrow> Inl e
           | Inr ideOk \<Rightarrow>
               if \<not> ideOk then Inr False
               else case (case extensionVersion_clause condition of
                            None \<Rightarrow> Inr True
                          | Some c \<Rightarrow> isValidVersion (extensionVersion ctx) c) of
                      Inl e \<Rightarrow> Inl e
                    | Inr extOk \<Rightarrow>
                        if \<not> extOk then Inr False
                        else (case additionalCriteria condition of
                                None \<Rightarrow> Inr True
                              | Some cs \<Rightarrow> evaluate_criteria ctx cs))"

definition shouldDisplayNotification ::
  "string \<Rightarrow> RuleContext \<Rightarrow> ToolkitNotification \<Rightarrow> error + bool" where
  "shouldDisplayNotification currentExt ctx payload =
     evaluate currentExt ctx (displayIf payload)"

section \<open>Building the context\<close>

text \<open>
  \<^verbatim>\<open>getRuleContext\<close> reads the host: \<^verbatim>\<open>vscode.version\<close>, the version in the extension's
  \<^verbatim>\<open>packageJSON\<close>, the results of \<^verbatim>\<open>getOperatingSystem()\<close> and \<^verbatim>\<open>getComputeEnvType()\<close>,
  and \<^verbatim>\<open>vscode.extensions.all\<close>. They are the fields of \<open>Host\<close>. The fields
  \<^verbatim>\<open>id\<close> of an extension and \<^verbatim>\<open>authScopes\<close> of the authentication state carry a suffix,
  the names being taken.
\<close>

record Extension =
  id_ext :: string
  isActive :: bool

record AuthState =
  authEnabledConnections :: string
  awsRegion :: "string option"
  authStatus :: string
  authScopes_state :: "string option"

record Host =
  vscode_version :: string
  packageJSON_version :: string
  getOperatingSystem :: string
  getComputeEnvType :: string
  extensions_all :: "Extension list"

definition getRuleContext :: "Host \<Rightarrow> AuthState \<Rightarrow> RuleContext" where
  "getRuleContext host authState =
     \<lparr> ideVersion = vscode_version host,
       extensionVersion = packageJSON_version host,
       os = getOperatingSystem host,
       computeEnv = getComputeEnvType host,
       authTypes = split_on (CHR '','') (authEnabledConnections authState),
       authRegions = (if truthy (awsRegion authState) then [the (awsRegion authState)] else []),
       authStates = [authStatus authState],
       authScopes = (if truthy (authScopes_state authState)
                     then split_on (CHR '','') (the (authScopes_state authState)) else []),
       installedExtensions = map id_ext (extensions_all host),
       activeExtensions = map id_ext (filter isActive (extensions_all host)) \<rparr>"

section \<open>Well-formed inputs\<close>

text \<open>The eight kinds \<^verbatim>\<open>evaluateRule\<close> dispatches on.\<close>

definition criteria_types :: "string list" where
  "criteria_types =
     [''OS'', ''ComputeEnv'', ''AuthType'', ''AuthRegion'', ''AuthState'', ''AuthScopes'',
      ''InstalledExtensions'', ''ActiveExtensions'']"

text \<open>A string is a valid version when the constructor of \<^verbatim>\<open>SemVer\<close> accepts it.\<close>

definition valid :: "string \<Rightarrow> bool" where
  "valid s = (case new_SemVer s of Inl e \<Rightarrow> False | Inr x \<Rightarrow> True)"

text \<open>A condition tree with no node outside \<^verbatim>\<open>range\<close>, \<^verbatim>\<open>exactMatch\<close> and \<^verbatim>\<open>or\<close>.\<close>

fun recognized :: "ConditionalClause \<Rightarrow> bool" where
  "recognized (Range lo hi) = True"
| "recognized (ExactMatch vs) = True"
| "recognized (Or clauses) = list_all recognized clauses"
| "recognized (UnknownClause tag) = False"

text \<open>
  A condition tree whose version strings are all valid: every bound of a range that is not
  the empty string, and every value of an exact match.
\<close>

fun versions_valid :: "ConditionalClause \<Rightarrow> bool" where
  "versions_valid (Range lo hi) =
     ((case lo of None \<Rightarrow> True | Some l \<Rightarrow> l = [] \<or> valid l) \<and>
      (case hi of None \<Rightarrow> True | Some h \<Rightarrow> h = [] \<or> valid h))"
| "versions_valid (ExactMatch vs) = list_all valid vs"
| "versions_valid (Or clauses) = list_all versions_valid clauses"
| "versions_valid (UnknownClause tag) = True"

text \<open>The context of the end-to-end scenarios: IDE 1.50.0, extension 3.0.0, not signed in.\<close>

definition example_context :: RuleContext where
  "example_context =
     \<lparr> ideVersion = ''1.50.0'', extensionVersion = ''3.0.0'', os = ''LINUX'',
       computeEnv = ''local'', authTypes = [''builderId''], authRegions = [''us-east-1''],
       authStates = [''disconnected''], authScopes = [''x'', ''y''],
       installedExtensions = [''a'', ''b'', ''c''], activeExtensions = [''a''] \<rparr>"

section \<open>Loops\<close>

lemma isValidVersion_some_eq:
  "isValidVersion_some v cs = some_e (isValidVersion v) cs"
  by (induction cs) (simp_all split: sum.splits)

text \<open>
  \<open>some_e\<close> answers \<open>true\<close> exactly when the callback is \<open>true\<close> on some element and
  throws on none before it.
\<close>

lemma some_e_True_iff:
  "some_e f xs = Inr True \<longleftrightarrow>
     (\<exists>ys z zs. xs = ys @ z # zs \<and> f z = Inr True \<and> (\<forall>y\<in>set ys. \<exists>b. f y = Inr b))"
proof (induction xs)
  case Nil
  then show ?case by simp
next
  case (Cons x xs)
  show ?case
  proof (cases "f x")
    case (Inl e)
    have "\<not> (\<exists>ys z zs. x # xs = ys @ z # zs \<and> f z = Inr True
                \<and> (\<forall>y\<in>set ys. \<exists>b. f y = Inr b))"
    proof
      assume "\<exists>ys z zs. x # xs = ys @ z # zs \<and> f z = Inr True
                \<and> (\<forall>y\<in>set ys. \<exists>b. f y = Inr b)"
      then obtain ys z zs where h: "x # xs = ys @ z # zs" "f z = Inr True"
        "\<forall>y\<in>set ys. \<exists>b. f y = Inr b" by blast
      show False
      proof (cases ys)
        case Nil
        with h Inl show False by simp
      next
        case (Cons y ys')
        with h Inl show False by auto
      qed
    qed
    with Inl show ?thesis by simp
  next
    case (Inr b)
    show ?thesis
    proof (cases b)
      case True
      have "x # xs = [] @ x # xs \<and> f x = Inr True \<and> (\<forall>y\<in>set []. \<exists>b. f y = Inr b)"
        using Inr True by simp
      then have "\<exists>ys z zs. x # xs = ys @ z # zs \<and> f z = Inr True
                   \<and> (\<forall>y\<in>set ys. \<exists>b. f y = Inr b)"
        by blast
      with Inr True show ?thesis by simp
    next
      case False
      have "(\<exists>ys z zs. x # xs = ys @ z # zs \<and> f z = Inr True
               \<and> (\<forall>y\<in>set ys. \<exists>b. f y = Inr b))
        \<longleftrightarrow> (\<exists>ys z zs. xs = ys @ z # zs \<and> f z = Inr True
               \<and> (\<forall>y\<in>set ys. \<exists>b. f y = Inr b))"
        (is "?L \<longleftrightarrow> ?R")
      proof
        assume ?L
        then obtain ys z zs where h: "x # xs = ys @ z # zs" "f z = Inr True"
          "\<forall>y\<in>set ys. \<exists>b. f y = Inr b" by blast
        show ?R
        proof (cases ys)
          case Nil
          with h Inr False show ?thesis by simp
        next
          case (Cons y ys')
          with h have "xs = ys' @ z # zs \<and> f z = Inr True
                         \<and> (\<forall>y\<in>set ys'. \<exists>b. f y = Inr b)"
            by simp
          then show ?thesis by blast
        qed
      next
        assume ?R
        then obtain ys z zs where h: "xs = ys @ z # zs" "f z = Inr True"
          "\<forall>y\<in>set ys. \<exists>b. f y = Inr b" by blast
        then have "x # xs = (x # ys) @ z # zs \<and> f z = Inr True
                     \<and> (\<forall>y\<in>set (x # ys). \<exists>b. f y = Inr b)"
          using Inr by simp
        then show ?L by blast
      qed
      with Inr False Cons.IH show ?thesis by simp
    qed
  qed
qed

lemma some_e_total:
  "\<forall>x\<in>set xs. \<not> isl (f x) \<Longrightarrow> \<not> isl (some_e f xs)"
  by (induction xs) (auto split: sum.splits)

text \<open>An exception of the callback leaves the loop when every element before it was \<open>false\<close>.\<close>

lemma some_e_throws:
  "\<forall>y\<in>set ys. f y = Inr False \<Longrightarrow> f z = Inl e \<Longrightarrow> some_e f (ys @ z # zs) = Inl e"
  by (induction ys) simp_all

lemma evaluate_criteria_True_iff:
  "evaluate_criteria ctx cs = Inr True \<longleftrightarrow> (\<forall>c\<in>set cs. evaluateRule ctx c = Inr True)"
  by (induction cs) (auto split: sum.splits)

lemma evaluate_criteria_throws:
  "\<forall>p\<in>set pre. evaluateRule ctx p = Inr True \<Longrightarrow> evaluateRule ctx c = Inl e
     \<Longrightarrow> evaluate_criteria ctx (pre @ c # post) = Inl e"
  by (induction pre) simp_all

section \<open>No exception on well-formed input\<close>

lemma evaluateRule_total:
  "type c \<in> set criteria_types \<Longrightarrow> \<not> isl (evaluateRule ctx c)"
  by (auto simp: evaluateRule_def criteria_types_def)

lemma evaluate_criteria_total:
  "\<forall>c\<in>set cs. type c \<in> set criteria_types \<Longrightarrow> \<not> isl (evaluate_criteria ctx cs)"
proof (induction cs)
  case Nil
  then show ?case by simp
next
  case (Cons c cs)
  then have "\<not> isl (evaluateRule ctx c)" "\<not> isl (evaluate_criteria ctx cs)"
    using evaluateRule_total [of c ctx] by simp_all
  then show ?case by (auto split: sum.splits)
qed

lemma compare_total:
  "valid a \<Longrightarrow> valid b \<Longrightarrow> \<not> isl (compare a b)"
  by (auto simp: valid_def compare_def split: sum.splits)

lemma semver_total:
  assumes "valid a" "valid b"
  shows "\<not> isl (semver_gte a b)" "\<not> isl (semver_lt a b)" "\<not> isl (semver_eq a b)"
  using compare_total [OF assms]
  by (auto simp: semver_gte_def semver_lt_def semver_eq_def split: sum.splits)

lemma isValidVersion_total:
  "valid v \<Longrightarrow> recognized c \<Longrightarrow> versions_valid c \<Longrightarrow> \<not> isl (isValidVersion v c)"
  "valid v \<Longrightarrow> list_all recognized cs \<Longrightarrow> list_all versions_valid cs
     \<Longrightarrow> \<not> isl (isValidVersion_some v cs)"
proof (induction v c and v cs rule: isValidVersion_isValidVersion_some.induct)
  case (1 version lo hi)
  have l: "\<not> isl (if \<not> truthy lo then Inr True else semver_gte version (the lo))"
    using 1 semver_total(1) [of version "the lo"]
    by (cases lo) (auto simp: truthy_def)
  have h: "\<not> isl (if \<not> truthy hi then Inr True else semver_lt version (the hi))"
    using 1 semver_total(2) [of version "the hi"]
    by (cases hi) (auto simp: truthy_def)
  from l h show ?case by (auto split: sum.splits)
next
  case (2 version vs)
  have "\<not> isl (some_e (\<lambda>v. semver_eq v version) vs)"
  proof (rule some_e_total, rule ballI)
    fix x assume "x \<in> set vs"
    with 2 have "valid x" by (simp add: list_all_iff)
    with 2 show "\<not> isl (semver_eq x version)" using semver_total(3) by blast
  qed
  then show ?case by simp
next
  case (3 version clauses)
  then show ?case by simp
next
  case (4 version tag)
  then show ?case by simp
next
  case (5 version)
  then show ?case by simp
next
  case (6 version clause clauses)
  then show ?case by (auto split: sum.splits)
qed

section \<open>The display decision\<close>

lemma gate_True_iff:
  "(case a of Inl e \<Rightarrow> Inl e | Inr ok \<Rightarrow> if \<not> ok then Inr False else rest) = Inr True
   \<longleftrightarrow> a = Inr True \<and> rest = (Inr True :: error + bool)"
  by (cases a) auto

lemma optional_True_iff:
  "(case x of None \<Rightarrow> Inr True | Some c \<Rightarrow> f c) = (Inr True :: error + bool)
   \<longleftrightarrow> (case x of None \<Rightarrow> True | Some c \<Rightarrow> f c = Inr True)"
  by (cases x) simp_all

lemma evaluate_True_iff:
  "evaluate currentExt ctx d = Inr True \<longleftrightarrow>
     extensionId d = currentExt \<and>
     (case ideVersion_clause d of
        None \<Rightarrow> True | Some c \<Rightarrow> isValidVersion (ideVersion ctx) c = Inr True) \<and>
     (case extensionVersion_clause d of
        None \<Rightarrow> True | Some c \<Rightarrow> isValidVersion (extensionVersion ctx) c = Inr True) \<and>
     (case additionalCriteria d of
        None \<Rightarrow> True | Some cs \<Rightarrow> \<forall>c\<in>set cs. evaluateRule ctx c = Inr True)"
proof (cases "extensionId d = currentExt")
  case True
  then show ?thesis
    unfolding evaluate_def
    by (simp only: gate_True_iff optional_True_iff evaluate_criteria_True_iff
          not_not if_False simp_thms)
next
  case False
  then show ?thesis by (simp add: evaluate_def)
qed


text \<open>
  C1: \<^verbatim>\<open>shouldDisplayNotification\<close> returns \<open>true\<close> if and only if the \<^verbatim>\<open>extensionId\<close> of
  \<^verbatim>\<open>displayIf\<close> is the id of the running extension, the \<^verbatim>\<open>ideVersion\<close> clause is absent
  or matches the IDE version of the context, the \<^verbatim>\<open>extensionVersion\<close> clause is absent or
  matches the extension version of the context, and every criterion of
  \<^verbatim>\<open>additionalCriteria\<close> passes (none, when the list is absent or empty).
\<close>

theorem shouldDisplayNotification_true_iff:
  "shouldDisplayNotification currentExt ctx payload = Inr True \<longleftrightarrow>
     extensionId (displayIf payload) = currentExt \<and>
     (case ideVersion_clause (displayIf payload) of
        None \<Rightarrow> True | Some c \<Rightarrow> isValidVersion (ideVersion ctx) c = Inr True) \<and>
     (case extensionVersion_clause (displayIf payload) of
        None \<Rightarrow> True | Some c \<Rightarrow> isValidVersion (extensionVersion ctx) c = Inr True) \<and>
     (case additionalCriteria (displayIf payload) of
        None \<Rightarrow> True | Some cs \<Rightarrow> \<forall>c\<in>set cs. evaluateRule ctx c = Inr True)"
  unfolding shouldDisplayNotification_def by (rule evaluate_True_iff)

text \<open>Scenario: extension 3.0.0 against the lower bound 2.0.0, and a matching \<^verbatim>\<open>AuthState\<close>.\<close>

theorem shouldDisplayNotification_true_iff_witness:
  "shouldDisplayNotification ''ext'' example_context
     \<lparr>displayIf = \<lparr>extensionId = ''ext'', ideVersion_clause = None,
        extensionVersion_clause = Some (Range (Some ''2.0.0'') None),
        additionalCriteria = Some [\<lparr>type = ''AuthState'', values = [''disconnected'']\<rparr>]\<rparr>\<rparr>
   = Inr True"
  by (subst shouldDisplayNotification_true_iff) code_simp

section \<open>Ranges\<close>

lemma both_constraints:
  "(case l of Inl e \<Rightarrow> Inl e
    | Inr a \<Rightarrow> (case u of Inl e \<Rightarrow> Inl e | Inr b \<Rightarrow> Inr (a \<and> b))) = Inr True
   \<longleftrightarrow> l = Inr True \<and> u = (Inr True :: error + bool)"
  by (cases l; cases u) auto

lemma lower_constraint:
  "(if \<not> truthy lo then Inr True else semver_gte v (the lo)) = Inr True \<longleftrightarrow>
     (case lo of None \<Rightarrow> True | Some l \<Rightarrow> l = [] \<or> semver_gte v l = Inr True)"
  by (cases lo) (simp_all add: truthy_def)

lemma upper_constraint:
  "(if \<not> truthy hi then Inr True else semver_lt v (the hi)) = Inr True \<longleftrightarrow>
     (case hi of None \<Rightarrow> True | Some h \<Rightarrow> h = [] \<or> semver_lt v h = Inr True)"
  by (cases hi) (simp_all add: truthy_def)

text \<open>
  C2, amended: a range matches a version if and only if the lower bound is absent, empty or
  not above the version, and the upper bound is absent, empty or above the version, in the
  order of semver. A version equal to the upper bound does not match: 3.0.0 against the
  upper bound 3.0.0 is \<open>false\<close>.
\<close>

theorem isValidVersion_range:
  "(isValidVersion v (Range lo hi) = Inr True \<longleftrightarrow>
      (case lo of None \<Rightarrow> True | Some l \<Rightarrow> l = [] \<or> semver_gte v l = Inr True) \<and>
      (case hi of None \<Rightarrow> True | Some h \<Rightarrow> h = [] \<or> semver_lt v h = Inr True))
   \<and> isValidVersion ''3.0.0'' (Range None (Some ''3.0.0'')) = Inr False"
proof
  show "isValidVersion v (Range lo hi) = Inr True \<longleftrightarrow>
      (case lo of None \<Rightarrow> True | Some l \<Rightarrow> l = [] \<or> semver_gte v l = Inr True) \<and>
      (case hi of None \<Rightarrow> True | Some h \<Rightarrow> h = [] \<or> semver_lt v h = Inr True)"
    by (simp only: isValidVersion.simps both_constraints lower_constraint upper_constraint)
  show "isValidVersion ''3.0.0'' (Range None (Some ''3.0.0'')) = Inr False"
    by code_simp
qed

text \<open>Version 3.0.0 within the lower bound 2.0.0 and an empty upper bound.\<close>

theorem isValidVersion_range_witness:
  "isValidVersion ''3.0.0'' (Range (Some ''2.0.0'') (Some '''')) = Inr True"
  by (subst conjunct1 [OF isValidVersion_range]) code_simp

text \<open>
  C2 as stated fails at a bound that is the empty string: the bound is present, comparing
  the version with it throws, and the range matches all the same.
\<close>

theorem isValidVersion_range_counterexample:
  "isValidVersion ''1.0.0'' (Range (Some '''') None) = Inr True
   \<and> Some '''' \<noteq> (None :: string option)
   \<and> semver_gte ''1.0.0'' '''' = Inl (TypeError ''Invalid Version: '')"
  by code_simp

section \<open>Exceptions\<close>

lemma gate_total:
  "\<not> isl a \<Longrightarrow> \<not> isl rest
     \<Longrightarrow> \<not> isl (case a of Inl e \<Rightarrow> Inl e | Inr ok \<Rightarrow> if \<not> ok then Inr False else rest)"
  by (cases a) auto

lemma optional_passes:
  "(case x of None \<Rightarrow> True | Some c \<Rightarrow> f c = Inr True)
     \<Longrightarrow> (case x of None \<Rightarrow> Inr True | Some c \<Rightarrow> f c) = (Inr True :: error + bool)"
  by (cases x) simp_all

text \<open>
  C3, amended: when the condition trees hold recognized variants only, the criteria are of
  the eight kinds, and the version strings compared (the version of the context a clause
  is checked against, the bounds of a range that are not empty, the values of an exact
  match) are valid semantic versions, \<^verbatim>\<open>shouldDisplayNotification\<close> returns a boolean:
  it throws only for an unrecognized variant or a string that is not a version.
\<close>

theorem shouldDisplayNotification_total:
  assumes ide: "case ideVersion_clause (displayIf payload) of None \<Rightarrow> True
                | Some c \<Rightarrow> recognized c \<and> versions_valid c \<and> valid (ideVersion ctx)"
    and ext: "case extensionVersion_clause (displayIf payload) of None \<Rightarrow> True
              | Some c \<Rightarrow> recognized c \<and> versions_valid c \<and> valid (extensionVersion ctx)"
    and crit: "case additionalCriteria (displayIf payload) of None \<Rightarrow> True
               | Some cs \<Rightarrow> \<forall>c\<in>set cs. type c \<in> set criteria_types"
  shows "\<exists>b. shouldDisplayNotification currentExt ctx payload = Inr b"
proof -
  have a: "\<not> isl (case ideVersion_clause (displayIf payload) of None \<Rightarrow> Inr True
                    | Some c \<Rightarrow> isValidVersion (ideVersion ctx) c)"
    using ide isValidVersion_total(1) [of "ideVersion ctx"]
    by (cases "ideVersion_clause (displayIf payload)") simp_all
  have b: "\<not> isl (case extensionVersion_clause (displayIf payload) of None \<Rightarrow> Inr True
                    | Some c \<Rightarrow> isValidVersion (extensionVersion ctx) c)"
    using ext isValidVersion_total(1) [of "extensionVersion ctx"]
    by (cases "extensionVersion_clause (displayIf payload)") simp_all
  have c: "\<not> isl (case additionalCriteria (displayIf payload) of None \<Rightarrow> Inr True
                    | Some cs \<Rightarrow> evaluate_criteria ctx cs)"
    using crit evaluate_criteria_total [of _ ctx]
    by (cases "additionalCriteria (displayIf payload)") simp_all
  have "\<not> isl (evaluate currentExt ctx (displayIf payload))"
    unfolding evaluate_def using a b c by (simp add: gate_total)
  then show ?thesis
    unfolding shouldDisplayNotification_def
    by (cases "evaluate currentExt ctx (displayIf payload)") simp_all
qed

text \<open>Empty lists, an absent field and an empty bound, all resolved without an exception.\<close>

theorem shouldDisplayNotification_total_witness:
  "\<exists>b. shouldDisplayNotification ''ext'' example_context
     \<lparr>displayIf = \<lparr>extensionId = ''ext'',
        ideVersion_clause = Some (Or [Range (Some ''1.0.0'') (Some ''''), ExactMatch [], Or []]),
        extensionVersion_clause = None,
        additionalCriteria = Some [\<lparr>type = ''AuthScopes'', values = []\<rparr>,
                                   \<lparr>type = ''OS'', values = [''LINUX'']\<rparr>]\<rparr>\<rparr> = Inr b"
  by (rule shouldDisplayNotification_total) code_simp+

text \<open>
  C3 as stated fails at a bound that is not a version: the tree is a single range, and
  comparing the extension version 3.0.0 with the bound 2.0 throws.
\<close>

theorem shouldDisplayNotification_total_counterexample:
  "recognized (Range (Some ''2.0'') None)
   \<and> shouldDisplayNotification ''ext'' example_context
       \<lparr>displayIf = \<lparr>extensionId = ''ext'', ideVersion_clause = None,
          extensionVersion_clause = Some (Range (Some ''2.0'') None),
          additionalCriteria = None\<rparr>\<rparr>
     = Inl (TypeError ''Invalid Version: 2.0'')"
  by code_simp

section \<open>Exact matches\<close>

text \<open>
  C4, amended: an exact match returns \<open>true\<close> for a version if and only if some value of the
  clause is semantically equal to the version and comparing the version with each value
  before it does not throw. Equality is that of semver, not of strings: 1.2.3 matches the
  value 1.2.3 and the value v1.2.3+build.7, and 1.2.4 does not match 1.2.3.
\<close>

theorem isValidVersion_exactMatch:
  "(isValidVersion v (ExactMatch vs) = Inr True \<longleftrightarrow>
      (\<exists>before e after. vs = before @ e # after \<and> semver_eq e v = Inr True
         \<and> (\<forall>x\<in>set before. \<exists>b. semver_eq x v = Inr b)))
   \<and> isValidVersion ''1.2.3'' (ExactMatch [''1.2.3'']) = Inr True
   \<and> isValidVersion ''1.2.3'' (ExactMatch [''v1.2.3+build.7'']) = Inr True
   \<and> isValidVersion ''1.2.4'' (ExactMatch [''1.2.3'']) = Inr False"
proof (intro conjI)
  show "isValidVersion v (ExactMatch vs) = Inr True \<longleftrightarrow>
      (\<exists>before e after. vs = before @ e # after \<and> semver_eq e v = Inr True
         \<and> (\<forall>x\<in>set before. \<exists>b. semver_eq x v = Inr b))"
    by (simp only: isValidVersion.simps some_e_True_iff)
  show "isValidVersion ''1.2.3'' (ExactMatch [''1.2.3'']) = Inr True"
    by code_simp
  show "isValidVersion ''1.2.3'' (ExactMatch [''v1.2.3+build.7'']) = Inr True"
    by code_simp
  show "isValidVersion ''1.2.4'' (ExactMatch [''1.2.3'']) = Inr False"
    by code_simp
qed

text \<open>The second value is equal to the version; the third, not a version, is never compared.\<close>

theorem isValidVersion_exactMatch_witness:
  "isValidVersion ''1.2.3'' (ExactMatch [''1.0.0'', ''1.2.3'', ''1.2'']) = Inr True"
proof -
  have e: "semver_eq ''1.2.3'' ''1.2.3'' = Inr True"
    by code_simp
  have b: "semver_eq ''1.0.0'' ''1.2.3'' = Inr False"
    by code_simp
  have "[''1.0.0'', ''1.2.3'', ''1.2''] = [''1.0.0''] @ ''1.2.3'' # [''1.2'']
        \<and> semver_eq ''1.2.3'' ''1.2.3'' = Inr True
        \<and> (\<forall>x\<in>set [''1.0.0'']. \<exists>b. semver_eq x ''1.2.3'' = Inr b)"
    using e b by (simp, blast)
  then have "\<exists>before e after. [''1.0.0'', ''1.2.3'', ''1.2''] = before @ e # after
        \<and> semver_eq e ''1.2.3'' = Inr True
        \<and> (\<forall>x\<in>set before. \<exists>b. semver_eq x ''1.2.3'' = Inr b)"
    by blast
  then show ?thesis
    by (simp only: conjunct1 [OF isValidVersion_exactMatch])
qed

text \<open>
  C4 as stated fails when a value before the equal one is not a version: 1.2.3 is equal to
  the second value, and the match throws at the first.
\<close>

theorem isValidVersion_exactMatch_counterexample:
  "semver_eq ''1.2.3'' ''1.2.3'' = Inr True
   \<and> isValidVersion ''1.2.3'' (ExactMatch [''1.2'', ''1.2.3''])
       = Inl (TypeError ''Invalid Version: 1.2'')"
  by code_simp

section \<open>Criteria on the authentication state\<close>

text \<open>
  C5: a criterion of type \<^verbatim>\<open>AuthType\<close>, \<^verbatim>\<open>AuthRegion\<close> or \<^verbatim>\<open>AuthState\<close> returns whether at
  least one value of the context for that field is among the expected values; the result
  is \<open>false\<close> when the context has no value and when no value is expected.
\<close>

theorem evaluateRule_auth:
  assumes "(type c, xs) \<in> set [(''AuthType'', authTypes ctx), (''AuthRegion'', authRegions ctx),
                                 (''AuthState'', authStates ctx)]"
  shows "evaluateRule ctx c = Inr (\<exists>v\<in>set xs. v \<in> set (values c))
         \<and> (xs = [] \<longrightarrow> evaluateRule ctx c = Inr False)
         \<and> (values c = [] \<longrightarrow> evaluateRule ctx c = Inr False)"
proof -
  have "evaluateRule ctx c = Inr (\<exists>v\<in>set xs. v \<in> set (values c))"
    using assms by (auto simp: evaluateRule_def hasAnyOfExpected_def list_ex_iff)
  then show ?thesis by simp
qed

text \<open>Scenario 3: \<^verbatim>\<open>connected\<close> is expected and the context is \<^verbatim>\<open>disconnected\<close>.\<close>

theorem evaluateRule_auth_witness:
  "evaluateRule example_context \<lparr>type = ''AuthState'', values = [''connected'']\<rparr> = Inr False"
  using evaluateRule_auth [of "\<lparr>type = ''AuthState'', values = [''connected'']\<rparr>"
      "[''disconnected'']" example_context]
  by (simp add: example_context_def)

section \<open>The extension gate\<close>

text \<open>
  C6: when the \<^verbatim>\<open>extensionId\<close> of \<^verbatim>\<open>displayIf\<close> is not the id of the running extension,
  \<^verbatim>\<open>shouldDisplayNotification\<close> returns \<open>false\<close>, whatever the other fields hold: none of
  them is evaluated, so none can throw.
\<close>

theorem extensionId_mismatch:
  "extensionId (displayIf payload) \<noteq> currentExt
     \<Longrightarrow> shouldDisplayNotification currentExt ctx payload = Inr False"
  by (simp add: shouldDisplayNotification_def evaluate_def)

text \<open>Each of the other fields would throw if it were evaluated.\<close>

theorem extensionId_mismatch_witness:
  "shouldDisplayNotification ''ext'' example_context
     \<lparr>displayIf = \<lparr>extensionId = ''other'', ideVersion_clause = Some (UnknownClause ''regex''),
        extensionVersion_clause = Some (Range (Some ''2.0'') None),
        additionalCriteria = Some [\<lparr>type = ''Bogus'', values = []\<rparr>]\<rparr>\<rparr>
   = Inr False"
  by (rule extensionId_mismatch) simp

section \<open>Unknown variants\<close>

text \<open>
  C7: evaluating a clause with an unknown tag throws the error
  \<^verbatim>\<open>Unknown clause type: <tag>\<close>, and evaluating a criterion of a type outside the eight
  throws \<^verbatim>\<open>Unknown criteria type: <type>\<close>. An exception leaves \<^verbatim>\<open>or\<close> when the clauses
  before it were \<open>false\<close>, and it leaves \<^verbatim>\<open>shouldDisplayNotification\<close> when the extension
  id and the gates before it passed: no boolean is returned.
\<close>

theorem unknown_variants_throw:
  "isValidVersion v (UnknownClause tag) = Inl (Error (''Unknown clause type: '' @ tag))
   \<and> (type c \<notin> set criteria_types
        \<longrightarrow> evaluateRule ctx c = Inl (Error (''Unknown criteria type: '' @ type c)))
   \<and> ((\<forall>p\<in>set before. isValidVersion v p = Inr False) \<and> isValidVersion v cl = Inl e
        \<longrightarrow> isValidVersion v (Or (before @ cl # after)) = Inl e)
   \<and> (extensionId (displayIf payload) = currentExt
        \<and> ideVersion_clause (displayIf payload) = Some cl
        \<and> isValidVersion (ideVersion ctx) cl = Inl e
        \<longrightarrow> shouldDisplayNotification currentExt ctx payload = Inl e)
   \<and> (extensionId (displayIf payload) = currentExt
        \<and> (case ideVersion_clause (displayIf payload) of None \<Rightarrow> True
            | Some c1 \<Rightarrow> isValidVersion (ideVersion ctx) c1 = Inr True)
        \<and> extensionVersion_clause (displayIf payload) = Some cl
        \<and> isValidVersion (extensionVersion ctx) cl = Inl e
        \<longrightarrow> shouldDisplayNotification currentExt ctx payload = Inl e)
   \<and> (extensionId (displayIf payload) = currentExt
        \<and> (case ideVersion_clause (displayIf payload) of None \<Rightarrow> True
            | Some c1 \<Rightarrow> isValidVersion (ideVersion ctx) c1 = Inr True)
        \<and> (case extensionVersion_clause (displayIf payload) of None \<Rightarrow> True
            | Some c2 \<Rightarrow> isValidVersion (extensionVersion ctx) c2 = Inr True)
        \<and> additionalCriteria (displayIf payload) = Some (pre @ c # post)
        \<and> (\<forall>p\<in>set pre. evaluateRule ctx p = Inr True)
        \<and> evaluateRule ctx c = Inl e
        \<longrightarrow> shouldDisplayNotification currentExt ctx payload = Inl e)"
proof (intro conjI impI)
  show "isValidVersion v (UnknownClause tag) = Inl (Error (''Unknown clause type: '' @ tag))"
    by simp
next
  assume "type c \<notin> set criteria_types"
  then show "evaluateRule ctx c = Inl (Error (''Unknown criteria type: '' @ type c))"
    by (simp add: evaluateRule_def criteria_types_def)
next
  assume "(\<forall>p\<in>set before. isValidVersion v p = Inr False) \<and> isValidVersion v cl = Inl e"
  then show "isValidVersion v (Or (before @ cl # after)) = Inl e"
    by (simp add: isValidVersion_some_eq some_e_throws)
next
  assume "extensionId (displayIf payload) = currentExt
        \<and> ideVersion_clause (displayIf payload) = Some cl
        \<and> isValidVersion (ideVersion ctx) cl = Inl e"
  then show "shouldDisplayNotification currentExt ctx payload = Inl e"
    by (simp add: shouldDisplayNotification_def evaluate_def)
next
  assume h: "extensionId (displayIf payload) = currentExt
        \<and> (case ideVersion_clause (displayIf payload) of None \<Rightarrow> True
            | Some c1 \<Rightarrow> isValidVersion (ideVersion ctx) c1 = Inr True)
        \<and> extensionVersion_clause (displayIf payload) = Some cl
        \<and> isValidVersion (extensionVersion ctx) cl = Inl e"
  then have "(case ideVersion_clause (displayIf payload) of None \<Rightarrow> Inr True
              | Some c1 \<Rightarrow> isValidVersion (ideVersion ctx) c1) = Inr True"
    by (simp add: optional_passes)
  with h show "shouldDisplayNotification currentExt ctx payload = Inl e"
    by (simp add: shouldDisplayNotification_def evaluate_def)
next
  assume h: "extensionId (displayIf payload) = currentExt
        \<and> (case ideVersion_clause (displayIf payload) of None \<Rightarrow> True
            | Some c1 \<Rightarrow> isValidVersion (ideVersion ctx) c1 = Inr True)
        \<and> (case extensionVersion_clause (displayIf payload) of None \<Rightarrow> True
            | Some c2 \<Rightarrow> isValidVersion (extensionVersion ctx) c2 = Inr True)
        \<and> additionalCriteria (displayIf payload) = Some (pre @ c # post)
        \<and> (\<forall>p\<in>set pre. evaluateRule ctx p = Inr True)
        \<and> evaluateRule ctx c = Inl e"
  then have "(case ideVersion_clause (displayIf payload) of None \<Rightarrow> Inr True
              | Some c1 \<Rightarrow> isValidVersion (ideVersion ctx) c1) = Inr True"
    and "(case extensionVersion_clause (displayIf payload) of None \<Rightarrow> Inr True
          | Some c2 \<Rightarrow> isValidVersion (extensionVersion ctx) c2) = Inr True"
    and "evaluate_criteria ctx (pre @ c # post) = Inl e"
    by (simp_all add: optional_passes evaluate_criteria_throws)
  with h show "shouldDisplayNotification currentExt ctx payload = Inl e"
    by (simp add: shouldDisplayNotification_def evaluate_def)
qed

text \<open>
  Scenario 4: the criterion \<^verbatim>\<open>Bogus\<close> after a version gate and a criterion that pass, and
  an unknown clause after a clause of \<^verbatim>\<open>or\<close> that is \<open>false\<close>.
\<close>

theorem unknown_variants_throw_witness:
  "shouldDisplayNotification ''ext'' example_context
     \<lparr>displayIf = \<lparr>extensionId = ''ext'', ideVersion_clause = None,
        extensionVersion_clause = Some (Range (Some ''2.0.0'') None),
        additionalCriteria = Some [\<lparr>type = ''OS'', values = [''LINUX'']\<rparr>,
                                   \<lparr>type = ''Bogus'', values = []\<rparr>]\<rparr>\<rparr>
     = Inl (Error ''Unknown criteria type: Bogus'')
   \<and> isValidVersion ''3.0.0'' (Or [ExactMatch [], UnknownClause ''regex''])
     = Inl (Error ''Unknown clause type: regex'')"
proof -
  note t = unknown_variants_throw
    [where c = "\<lparr>type = ''Bogus'', values = []\<rparr>" and ctx = example_context
       and v = "''3.0.0''" and tag = "''regex''" and before = "[ExactMatch []]"
       and cl = "UnknownClause ''regex''" and after = "[]"
       and e = "Error ''Unknown clause type: regex''"]
  note u = unknown_variants_throw
    [where c = "\<lparr>type = ''Bogus'', values = []\<rparr>" and ctx = example_context
       and e = "Error ''Unknown criteria type: Bogus''"
       and pre = "[\<lparr>type = ''OS'', values = [''LINUX'']\<rparr>]" and post = "[]"
       and currentExt = "''ext''"
       and payload = "\<lparr>displayIf = \<lparr>extensionId = ''ext'', ideVersion_clause = None,
        extensionVersion_clause = Some (Range (Some ''2.0.0'') None),
        additionalCriteria = Some [\<lparr>type = ''OS'', values = [''LINUX'']\<rparr>,
                                   \<lparr>type = ''Bogus'', values = []\<rparr>]\<rparr>\<rparr>"]
  have g: "isValidVersion (extensionVersion example_context) (Range (Some ''2.0.0'') None)
           = Inr True"
    by code_simp
  have o: "evaluateRule example_context \<lparr>type = ''OS'', values = [''LINUX'']\<rparr> = Inr True"
    by code_simp
  have n: "type \<lparr>type = ''Bogus'', values = []\<rparr> \<notin> set criteria_types"
    by code_simp
  have "isValidVersion ''3.0.0'' (Or [ExactMatch [], UnknownClause ''regex''])
        = Inl (Error ''Unknown clause type: regex'')"
    using t by simp
  moreover have "evaluateRule example_context \<lparr>type = ''Bogus'', values = []\<rparr>
        = Inl (Error ''Unknown criteria type: Bogus'')"
    using u n by simp
  ultimately show ?thesis using u g o by simp
qed

section \<open>Degenerate clauses\<close>

text \<open>
  C8: \<^verbatim>\<open>or\<close> of no clause is \<open>false\<close> for every version, and \<^verbatim>\<open>or\<close> of one clause is that
  clause: the same boolean or the same exception.
\<close>

theorem or_degenerate:
  "isValidVersion v (Or []) = Inr False \<and> isValidVersion v (Or [c]) = isValidVersion v c"
  by (cases "isValidVersion v c") auto

theorem or_degenerate_witness:
  "isValidVersion ''3.0.0'' (Or []) = Inr False
   \<and> isValidVersion ''3.0.0'' (Or [Range (Some ''2.0.0'') None])
     = isValidVersion ''3.0.0'' (Range (Some ''2.0.0'') None)"
  by (rule or_degenerate)

text \<open>
  C9: a bound of a range that is the empty string is treated as an absent bound, on either
  side; a range with no other bound then matches every version.
\<close>

theorem empty_bound_is_absent:
  "isValidVersion v (Range (Some '''') hi) = isValidVersion v (Range None hi)
   \<and> isValidVersion v (Range lo (Some '''')) = isValidVersion v (Range lo None)
   \<and> isValidVersion v (Range (Some '''') None) = Inr True
   \<and> isValidVersion v (Range None (Some '''')) = Inr True"
  by (simp add: truthy_def)

theorem empty_bound_is_absent_witness:
  "isValidVersion ''3.0.0'' (Range (Some '''') (Some ''3.0.0''))
     = isValidVersion ''3.0.0'' (Range None (Some ''3.0.0''))
   \<and> isValidVersion ''3.0.0'' (Range (Some ''2.0.0'') (Some ''''))
     = isValidVersion ''3.0.0'' (Range (Some ''2.0.0'') None)
   \<and> isValidVersion ''3.0.0'' (Range (Some '''') None) = Inr True
   \<and> isValidVersion ''3.0.0'' (Range None (Some '''')) = Inr True"
  by (rule empty_bound_is_absent)

section \<open>The context that is built\<close>

text \<open>
  C10: in every context \<^verbatim>\<open>getRuleContext\<close> builds, each id of \<^verbatim>\<open>activeExtensions\<close> is an id of
  \<^verbatim>\<open>installedExtensions\<close>: both lists are read from the same enumeration of extensions.
\<close>

theorem active_subset_installed:
  "set (activeExtensions (getRuleContext host authState))
     \<subseteq> set (installedExtensions (getRuleContext host authState))"
  by (auto simp: getRuleContext_def)

theorem active_subset_installed_witness:
  "set (activeExtensions (getRuleContext
          \<lparr>vscode_version = ''1.50.0'', packageJSON_version = ''3.0.0'',
            getOperatingSystem = ''LINUX'', getComputeEnvType = ''local'',
            extensions_all = [\<lparr>id_ext = ''a'', isActive = True\<rparr>,
                              \<lparr>id_ext = ''b'', isActive = False\<rparr>]\<rparr>
          \<lparr>authEnabledConnections = ''builderId,iamIdentityCenter'', awsRegion = None,
            authStatus = ''connected'', authScopes_state = None\<rparr>))
     \<subseteq> set (installedExtensions (getRuleContext
          \<lparr>vscode_version = ''1.50.0'', packageJSON_version = ''3.0.0'',
            getOperatingSystem = ''LINUX'', getComputeEnvType = ''local'',
            extensions_all = [\<lparr>id_ext = ''a'', isActive = True\<rparr>,
                              \<lparr>id_ext = ''b'', isActive = False\<rparr>]\<rparr>
          \<lparr>authEnabledConnections = ''builderId,iamIdentityCenter'', awsRegion = None,
            authStatus = ''connected'', authScopes_state = None\<rparr>))"
  by (rule active_subset_installed)

end
